theory Spec2Isabelle
  imports Complex_Main "HOL-Library.Sublist"
begin

section \<open>Data model of the Dream11 predictor (Backend/team.py)\<close>

text \<open>
  Python floats (credits, scores, statistics) are modelled as rationals, Python strings as
  \<open>string\<close>. A dictionary whose iteration order is observed (\<open>player_scores\<close>,
  \<open>teams_data\<close>) is an association list in insertion order; a dictionary that is only
  read with \<open>get\<close>/\<open>in\<close> and written by key is a map.
\<close>

text \<open>The role categories of \<open>_simplify_role\<close>: the strings WK, BAT, ALL and BOWL.\<close>

datatype role_category = WK | BAT | ALL_ROUNDER | BOWL

text \<open>A value stored under a key of a head-to-head record of the JSON caches.\<close>

datatype field = Num rat | Str string | Null

text \<open>
  The value of \<open>head_to_head[opponent]\<close>: a record (a JSON object), a list of encounters,
  or any other JSON value.
\<close>

datatype h2h_data = HDict "string \<Rightarrow> field option" | HList "h2h_data list" | HOther

text \<open>
  One entry of \<open>batter_data\<close> or \<open>bowler_data\<close>. A key that is absent from the JSON object
  is \<open>None\<close>. The venue entry is the dictionary of table texts (keys \<open>Batting\<close>,
  \<open>Bowling\<close>); a recent-form entry is a JSON array, here a list of strings.
\<close>

record player_stats =
  head_to_head :: "(string \<Rightarrow> h2h_data option) option"
  venue :: "(string \<Rightarrow> string option) option"
  recent_form :: "string list list option"

text \<open>A row of a squad CSV file, with the columns Name, Role, Credits, Foreign Player.\<close>

record csv_row =
  row_name :: string
  row_role :: string
  row_credits :: rat
  row_foreign :: bool

text \<open>The instance attributes of \<open>Dream11Predictor\<close>.\<close>

record predictor =
  batter_data :: "string \<Rightarrow> player_stats option"
  bowler_data :: "string \<Rightarrow> player_stats option"
  teams_data :: "(string \<times> csv_row list) list"
  player_scores :: "(string \<times> rat) list"
  selected_team :: "(string \<times> rat) list"
  player_roles :: "string \<Rightarrow> string option"
  player_credits :: "string \<Rightarrow> rat option"
  player_is_foreign :: "string \<Rightarrow> bool option"
  player_teams :: "string \<Rightarrow> string option"
  team_counts :: "string \<Rightarrow> nat"
  role_team_counts :: "string \<Rightarrow> role_category \<Rightarrow> nat"

text \<open>\<open>d.get(k, default)\<close>\<close>

definition dict_get :: "('k \<Rightarrow> 'v option) \<Rightarrow> 'k \<Rightarrow> 'v \<Rightarrow> 'v" where
  "dict_get d k dflt = (case d k of None \<Rightarrow> dflt | Some v \<Rightarrow> v)"

text \<open>\<open>tok in s\<close> on strings: \<open>tok\<close> occurs in \<open>s\<close> as a contiguous substring.\<close>

fun str_in :: "string \<Rightarrow> string \<Rightarrow> bool" where
  "str_in tok [] = (tok = [])"
| "str_in tok (c # cs) = (prefix tok (c # cs) \<or> str_in tok cs)"

section \<open>Role classification used by the selector\<close>

definition simplify_role :: "predictor \<Rightarrow> string \<Rightarrow> role_category" where
  "simplify_role self player =
     (let role = dict_get (player_roles self) player ''Unknown'' in
      if str_in ''WK'' role then WK
      else if str_in ''Bowler'' role then BOWL
      else if str_in ''All-Rounder'' role \<or> str_in ''Allrounder'' role then ALL_ROUNDER
      else if str_in ''Batter'' role \<or> str_in ''Batsman'' role then BAT
      else BAT)"

section \<open>The constrained team selector\<close>

definition MAX_TEAM_PLAYERS :: nat where
  "MAX_TEAM_PLAYERS = 6"

fun MAX_ROLE_PER_TEAM :: "role_category \<Rightarrow> nat" where
  "MAX_ROLE_PER_TEAM WK = 2"
| "MAX_ROLE_PER_TEAM BAT = 3"
| "MAX_ROLE_PER_TEAM ALL_ROUNDER = 3"
| "MAX_ROLE_PER_TEAM BOWL = 3"

definition max_foreign :: nat where
  "max_foreign = 4"

definition max_credits :: rat where
  "max_credits = 100"

text \<open>The per-player lookups of the selection loop, with their defaults.\<close>

definition credits_of :: "predictor \<Rightarrow> string \<Rightarrow> rat" where
  "credits_of self player = dict_get (player_credits self) player 7"

definition foreign_of :: "predictor \<Rightarrow> string \<Rightarrow> bool" where
  "foreign_of self player = dict_get (player_is_foreign self) player False"

definition team_of :: "predictor \<Rightarrow> string \<Rightarrow> string" where
  "team_of self player = dict_get (player_teams self) player ''Unknown''"


text \<open>The local variables and counters of the selection loop.\<close>

record sel_state =
  sel_players :: "(string \<times> rat) list"
  sel_credits :: rat
  sel_foreign :: nat
  sel_team_counts :: "string \<Rightarrow> nat"
  sel_role_team_counts :: "string \<Rightarrow> role_category \<Rightarrow> nat"

definition sel_init :: sel_state where
  "sel_init = \<lparr> sel_players = [], sel_credits = 0, sel_foreign = 0,
                sel_team_counts = (\<lambda>_. 0), sel_role_team_counts = (\<lambda>_ _. 0) \<rparr>"

text \<open>The four checks of the loop body; a candidate failing one is skipped.\<close>

definition rejected :: "predictor \<Rightarrow> sel_state \<Rightarrow> string \<Rightarrow> bool" where
  "rejected self st player =
     (let credits = credits_of self player;
          is_foreign = foreign_of self player;
          team = team_of self player;
          role_category = simplify_role self player in
      if sel_team_counts st team \<ge> MAX_TEAM_PLAYERS then True
      else if sel_role_team_counts st team role_category \<ge> MAX_ROLE_PER_TEAM role_category then True
      else if sel_credits st + credits > max_credits then True
      else if is_foreign \<and> sel_foreign st \<ge> max_foreign then True
      else False)"

text \<open>Proceeding with the selection: the append and the counter updates.\<close>

definition accept :: "predictor \<Rightarrow> sel_state \<Rightarrow> string \<times> rat \<Rightarrow> sel_state" where
  "accept self st ps =
     (let player = fst ps;
          team = team_of self player;
          role_category = simplify_role self player in
      \<lparr> sel_players = sel_players st @ [ps],
        sel_credits = sel_credits st + credits_of self player,
        sel_foreign = (if foreign_of self player then sel_foreign st + 1 else sel_foreign st),
        sel_team_counts = (sel_team_counts st)(team := sel_team_counts st team + 1),
        sel_role_team_counts = (sel_role_team_counts st)
           (team := (sel_role_team_counts st team)
              (role_category := sel_role_team_counts st team role_category + 1)) \<rparr>)"

fun select_loop :: "predictor \<Rightarrow> (string \<times> rat) list \<Rightarrow> sel_state \<Rightarrow> sel_state" where
  "select_loop self [] st = st"
| "select_loop self (ps # rest) st =
     (if rejected self st (fst ps) then select_loop self rest st
      else let st' = accept self st ps in
           if length (sel_players st') = 11 then st' else select_loop self rest st')"

text \<open>
  \<open>select_dream11_team\<close> returns the team, the captain, the vice-captain, the credit total
  and the foreign count, and leaves the team and the counters in the instance.
\<close>

record selection =
  team :: "(string \<times> rat) list"
  captain :: "string option"
  vice_captain :: "string option"
  total_credits :: rat
  foreign_count :: nat


section \<open>An example squad\<close>





section \<open>Role categorisation with the content-based fallback\<close>

text \<open>
  The state of a fresh instance, after \<open>__init__\<close> has loaded the two JSON caches and the
  squad files.
\<close>

definition init_predictor ::
  "(string \<Rightarrow> player_stats option) \<Rightarrow> (string \<Rightarrow> player_stats option) \<Rightarrow>
   (string \<times> csv_row list) list \<Rightarrow> predictor" where
  "init_predictor bd bwd td =
     \<lparr> batter_data = bd, bowler_data = bwd, teams_data = td,
       player_scores = [], selected_team = [],
       player_roles = Map.empty, player_credits = Map.empty,
       player_is_foreign = Map.empty, player_teams = Map.empty,
       team_counts = (\<lambda>_. 0), role_team_counts = (\<lambda>_ _. 0) \<rparr>"

text \<open>The names that the fallback of \<open>categorize_players\<close> files under wicket-keepers.\<close>

definition keeper_names :: "string list" where
  "keeper_names = [''MS Dhoni'', ''Rishabh Pant'', ''KL Rahul'', ''Sanju Samson'',
                   ''Ishan Kishan'', ''Nicholas Pooran'', ''Josh Inglis'', ''Prabhsimran Singh'']"

text \<open>
  The list that the loop body of \<open>categorize_players\<close> appends a player to: \<open>WK\<close> for
  \<open>wicket_keepers\<close>, \<open>BOWL\<close> for \<open>bowlers\<close>, \<open>ALL_ROUNDER\<close> for \<open>all_rounders\<close>, \<open>BAT\<close> for
  \<open>batsmen\<close>.
\<close>

definition category_of :: "predictor \<Rightarrow> string \<Rightarrow> role_category" where
  "category_of self player =
     (let role = dict_get (player_roles self) player ''Unknown'' in
      if str_in ''WK'' role then WK
      else if str_in ''Bowler'' role then BOWL
      else if str_in ''All-Rounder'' role \<or> str_in ''Allrounder'' role \<or>
              str_in ''All-rounder'' role \<or> str_in ''All Rounder'' role then ALL_ROUNDER
      else if str_in ''Batter'' role \<or> str_in ''Batsman'' role then BAT
      else if batter_data self player \<noteq> None \<and> bowler_data self player = None then
             (if player \<in> set keeper_names then WK else BAT)
      else if bowler_data self player \<noteq> None \<and> batter_data self player = None then BOWL
      else ALL_ROUNDER)"

record categorized =
  batsmen :: "(string \<times> rat) list"
  bowlers :: "(string \<times> rat) list"
  all_rounders :: "(string \<times> rat) list"
  wicket_keepers :: "(string \<times> rat) list"

fun categorize_loop :: "predictor \<Rightarrow> (string \<times> rat) list \<Rightarrow> categorized \<Rightarrow> categorized" where
  "categorize_loop self [] acc = acc"
| "categorize_loop self (ps # rest) acc =
     categorize_loop self rest
       (case category_of self (fst ps) of
          WK \<Rightarrow> acc \<lparr> wicket_keepers := wicket_keepers acc @ [ps] \<rparr>
        | BOWL \<Rightarrow> acc \<lparr> bowlers := bowlers acc @ [ps] \<rparr>
        | ALL_ROUNDER \<Rightarrow> acc \<lparr> all_rounders := all_rounders acc @ [ps] \<rparr>
        | BAT \<Rightarrow> acc \<lparr> batsmen := batsmen acc @ [ps] \<rparr>)"

definition categorize_players :: "predictor \<Rightarrow> (string \<times> rat) list \<Rightarrow> categorized" where
  "categorize_players self sorted_ps =
     categorize_loop self sorted_ps
       \<lparr> batsmen = [], bowlers = [], all_rounders = [], wicket_keepers = [] \<rparr>"

section \<open>The pre-pass reserving one player per category\<close>

text \<open>
  The inner loop of \<open>ensure_minimum_requirements\<close> over one category: a player already
  selected is skipped, and the first player that fits the budget and the foreign cap is
  appended, which ends the loop.
\<close>

fun reserve_one ::
  "predictor \<Rightarrow> (string \<times> rat) list \<Rightarrow> (string \<times> rat) list \<times> rat \<times> nat \<Rightarrow>
   (string \<times> rat) list \<times> rat \<times> nat" where
  "reserve_one self [] acc = acc"
| "reserve_one self (ps # rest) (selected_players, tc, fc) =
     (if length (filter (\<lambda>p. fst p = fst ps) selected_players) > 0
      then reserve_one self rest (selected_players, tc, fc)
      else let credits = dict_get (player_credits self) (fst ps) 7;
               is_foreign = dict_get (player_is_foreign self) (fst ps) False in
           if tc + credits \<le> max_credits \<and> (\<not> is_foreign \<or> fc < max_foreign)
           then (selected_players @ [ps], tc + credits, if is_foreign then fc + 1 else fc)
           else reserve_one self rest (selected_players, tc, fc))"

definition ensure_minimum_requirements ::
  "predictor \<Rightarrow> categorized \<Rightarrow> rat \<Rightarrow> nat \<Rightarrow> (string \<times> rat) list \<times> rat \<times> nat" where
  "ensure_minimum_requirements self categorized_players tc fc =
     foldl (\<lambda>acc category. reserve_one self category acc) ([], tc, fc)
       [wicket_keepers categorized_players, batsmen categorized_players,
        all_rounders categorized_players, bowlers categorized_players]"

text \<open>Four players without a role text, told apart only by the caches they appear in.\<close>

definition no_stats :: player_stats where
  "no_stats = \<lparr> head_to_head = None, venue = None, recent_form = None \<rparr>"

definition four_unknown :: predictor where
  "four_unknown = init_predictor
     (map_of [(''MS Dhoni'', no_stats), (''B'', no_stats), (''C'', no_stats)])
     (map_of [(''C'', no_stats), (''D'', no_stats)]) []"

definition four_scores :: "(string \<times> rat) list" where
  "four_scores = [(''MS Dhoni'', 4), (''B'', 3), (''C'', 2), (''D'', 1)]"

text \<open>A fresh instance with no data in which one player, \<open>x\<close>, has the given role text.\<close>

definition with_role :: "string \<Rightarrow> predictor" where
  "with_role r = (init_predictor Map.empty Map.empty []) \<lparr> player_roles := [''x'' \<mapsto> r] \<rparr>"

text \<open>The invariant of the pre-pass, relative to the totals it was called with.\<close>

definition prepass_inv :: "predictor \<Rightarrow> rat \<Rightarrow> nat \<Rightarrow> (string \<times> rat) list \<times> rat \<times> nat \<Rightarrow> bool" where
  "prepass_inv self tc0 fc0 acc =
     (distinct (map fst (fst acc)) \<and>
      fst (snd acc) = tc0 + sum_list (map (\<lambda>ps. credits_of self (fst ps)) (fst acc)) \<and>
      snd (snd acc) = fc0 + length (filter (\<lambda>ps. foreign_of self (fst ps)) (fst acc)) \<and>
      (tc0 \<le> 100 \<longrightarrow> fst (snd acc) \<le> 100) \<and>
      (fc0 \<le> 4 \<longrightarrow> snd (snd acc) \<le> 4))"

section \<open>The score aggregator\<close>

text \<open>
  What the passes take from Python's built-ins and from pandas, as parameters of the model:
  \<^item> \<open>float_of_str\<close>: \<open>float(s)\<close> on a string, \<open>None\<close> when it raises ValueError;
  \<^item> \<open>venue_batting\<close>, \<open>venue_bowling\<close>: the body of the \<open>try\<close> block of the venue pass, from
    the table text and the venue name to the amount added: the table is parsed, the first
    row whose venue contains the venue name is taken and \<open>avg/20 + strike_rate/100\<close>
    (\<open>wickets*3 + (10 - min(economy, 10))\<close> for bowling) is computed; \<open>None\<close> when no row
    matches or anything in the block raises;
  \<^item> \<open>read_csv\<close>: \<open>pd.read_csv\<close> on a text buffer, \<open>None\<close> when it raises; a frame maps a
    column name to the numeric values of that column.
\<close>

record library =
  float_of_str :: "string \<Rightarrow> rat option"
  venue_batting :: "string \<Rightarrow> string \<Rightarrow> rat option"
  venue_bowling :: "string \<Rightarrow> string \<Rightarrow> rat option"
  read_csv :: "string \<Rightarrow> (string \<Rightarrow> rat list option) option"

text \<open>
  \<open>if p not in self.player_scores: self.player_scores[p] = 0\<close>: a new key goes to the end of
  the dictionary.
\<close>

definition scores_init :: "(string \<times> rat) list \<Rightarrow> string \<Rightarrow> (string \<times> rat) list" where
  "scores_init scores p = (if p \<in> fst ` set scores then scores else scores @ [(p, 0)])"

text \<open>
  \<open>self.player_scores[p] += x\<close>. On a missing key Python raises KeyError; the head-to-head
  and recent-form passes insert the key first, and the venue pass runs the statement inside
  \<open>try ... except Exception\<close>, so a missing key leaves the dictionary as it is.
\<close>

definition scores_add :: "(string \<times> rat) list \<Rightarrow> string \<Rightarrow> rat \<Rightarrow> (string \<times> rat) list" where
  "scores_add scores p x = map (\<lambda>kv. if fst kv = p then (fst kv, snd kv + x) else kv) scores"

subsection \<open>Head-to-head\<close>

text \<open>An operand of \<open>/\<close>, \<open>*\<close>, \<open>-\<close>: a string or \<open>None\<close> raises TypeError (\<open>None\<close> here).\<close>

fun number :: "field \<Rightarrow> rat option" where
  "number (Num x) = Some x"
| "number (Str s) = None"
| "number Null = None"

text \<open>\<open>float(v)\<close>: ValueError on a string that is no number, TypeError on \<open>None\<close>.\<close>

fun to_float :: "library \<Rightarrow> field \<Rightarrow> rat option" where
  "to_float lib (Num x) = Some x"
| "to_float lib (Str s) = float_of_str lib s"
| "to_float lib Null = None"

text \<open>\<open>if isinstance(h2h_data, list) and len(h2h_data) > 0: h2h_data = h2h_data[0]\<close>\<close>

fun first_encounter :: "h2h_data \<Rightarrow> h2h_data" where
  "first_encounter (HList (x # xs)) = x"
| "first_encounter d = d"

text \<open>The \<open>try\<close> block of the batting direction; \<open>None\<close> when it raises.\<close>

definition batting_score :: "(string \<Rightarrow> field option) \<Rightarrow> rat option" where
  "batting_score h =
     (case (number (dict_get h ''Strike Rate'' (Num 0)), number (dict_get h ''Average'' (Num 0)),
            number (dict_get h ''Boundary %'' (Num 0)), number (dict_get h ''Dismissals'' (Num 0))) of
        (Some strike_rate, Some avg, Some boundary_pct, Some dismissals) \<Rightarrow>
           Some ((strike_rate / 100) * 2 + (avg / 10) + (boundary_pct / 10) - (dismissals * 2))
      | _ \<Rightarrow> None)"

text \<open>The \<open>try\<close> block of the bowling direction; \<open>None\<close> when it raises.\<close>

definition bowling_score :: "library \<Rightarrow> (string \<Rightarrow> field option) \<Rightarrow> rat option" where
  "bowling_score lib h =
     (case (to_float lib (dict_get h ''Dismissals'' (Num 0)), to_float lib (dict_get h ''Econ'' (Num 15))) of
        (Some dismissals, Some economy) \<Rightarrow> Some ((dismissals * 5) + (10 - min economy 10))
      | _ \<Rightarrow> None)"

text \<open>\<open>stats.get('head_to_head', {})\<close>\<close>

definition h2h_of :: "player_stats \<Rightarrow> string \<Rightarrow> h2h_data option" where
  "h2h_of stats = (case head_to_head stats of None \<Rightarrow> Map.empty | Some h \<Rightarrow> h)"

text \<open>The body of the inner loop of the first half, for one batter and one bowler.\<close>

definition batting_pair ::
  "player_stats \<Rightarrow> string \<Rightarrow> (string \<times> rat) list \<Rightarrow> string \<Rightarrow> (string \<times> rat) list" where
  "batting_pair stats batter scores bowler =
     (case h2h_of stats bowler of
        None \<Rightarrow> scores
      | Some h2h_data \<Rightarrow>
          (case first_encounter h2h_data of
             HDict h \<Rightarrow>
               (if h ''Message'' = None
                then (case batting_score h of
                        Some x \<Rightarrow> scores_add scores batter x
                      | None \<Rightarrow> scores)
                else scores)
           | _ \<Rightarrow> scores))"

text \<open>The body of the inner loop of the second half, for one bowler and one batter.\<close>

definition bowling_pair ::
  "library \<Rightarrow> player_stats \<Rightarrow> string \<Rightarrow> (string \<times> rat) list \<Rightarrow> string \<Rightarrow> (string \<times> rat) list" where
  "bowling_pair lib stats bowler scores batter =
     (case h2h_of stats batter of
        None \<Rightarrow> scores
      | Some h2h_data \<Rightarrow>
          (case h2h_data of
             HDict h \<Rightarrow>
               (case bowling_score lib h of
                  Some x \<Rightarrow> scores_add scores bowler x
                | None \<Rightarrow> scores)
           | _ \<Rightarrow> scores))"

definition analyze_batter ::
  "predictor \<Rightarrow> string list \<Rightarrow> (string \<times> rat) list \<Rightarrow> string \<Rightarrow> (string \<times> rat) list" where
  "analyze_batter self team2_players scores batter =
     (let scores = scores_init scores batter in
      case batter_data self batter of
        None \<Rightarrow> scores
      | Some stats \<Rightarrow> foldl (batting_pair stats batter) scores team2_players)"

definition analyze_bowler ::
  "library \<Rightarrow> predictor \<Rightarrow> string list \<Rightarrow> (string \<times> rat) list \<Rightarrow> string \<Rightarrow> (string \<times> rat) list" where
  "analyze_bowler lib self team1_players scores bowler =
     (let scores = scores_init scores bowler in
      case bowler_data self bowler of
        None \<Rightarrow> scores
      | Some stats \<Rightarrow> foldl (bowling_pair lib stats bowler) scores team1_players)"

definition analyze_head_to_head ::
  "library \<Rightarrow> predictor \<Rightarrow> string list \<Rightarrow> string list \<Rightarrow> predictor" where
  "analyze_head_to_head lib self team1_players team2_players =
     self \<lparr> player_scores :=
       foldl (analyze_bowler lib self team1_players)
         (foldl (analyze_batter self team2_players) (player_scores self) team1_players)
         team2_players \<rparr>"

subsection \<open>Venue performance\<close>

definition venue_player ::
  "library \<Rightarrow> predictor \<Rightarrow> string \<Rightarrow> (string \<times> rat) list \<Rightarrow> string \<Rightarrow> (string \<times> rat) list" where
  "venue_player lib self venue_name scores player =
     (let scores =
        (case batter_data self player of
           None \<Rightarrow> scores
         | Some stats \<Rightarrow>
             (case venue stats of
                None \<Rightarrow> scores
              | Some venue_data \<Rightarrow>
                  (case venue_data ''Batting'' of
                     None \<Rightarrow> scores
                   | Some txt \<Rightarrow>
                       (case venue_batting lib txt venue_name of
                          Some x \<Rightarrow> scores_add scores player x
                        | None \<Rightarrow> scores))))
      in
        (case bowler_data self player of
           None \<Rightarrow> scores
         | Some stats \<Rightarrow>
             (case venue stats of
                None \<Rightarrow> scores
              | Some venue_data \<Rightarrow>
                  (case venue_data ''Bowling'' of
                     None \<Rightarrow> scores
                   | Some txt \<Rightarrow>
                       (case venue_bowling lib txt venue_name of
                          Some x \<Rightarrow> scores_add scores player x
                        | None \<Rightarrow> scores)))))"

definition analyze_venue_performance ::
  "library \<Rightarrow> predictor \<Rightarrow> string \<Rightarrow> string list \<Rightarrow> predictor" where
  "analyze_venue_performance lib self venue_name players =
     self \<lparr> player_scores := foldl (venue_player lib self venue_name) (player_scores self) players \<rparr>"

subsection \<open>Recent form\<close>

datatype exn = AttributeError | KeyError

text \<open>
  \<open>pd.StringIO(text)\<close>. The module imports \<open>StringIO\<close> from \<open>io\<close> and the venue pass calls
  that; the recent-form pass asks the pandas module for it, and pandas has no attribute
  \<open>StringIO\<close>, so the call raises AttributeError.
\<close>

definition pd_StringIO :: "string \<Rightarrow> exn + string" where
  "pd_StringIO txt = Inl AttributeError"

text \<open>\<open>column.mean()\<close> of a numeric column.\<close>

definition mean :: "rat list \<Rightarrow> rat" where
  "mean xs = sum_list xs / of_nat (length xs)"

text \<open>
  The \<open>try\<close> block for a batting table: each of the two updates is made when its column is
  there. \<open>except Exception: pass\<close> leaves the scores as they are at the raise.
\<close>

definition batting_form ::
  "library \<Rightarrow> string \<Rightarrow> (string \<times> rat) list \<Rightarrow> string \<Rightarrow> (string \<times> rat) list" where
  "batting_form lib player scores txt =
     (case pd_StringIO txt of
        Inl e \<Rightarrow> scores
      | Inr buffer \<Rightarrow>
          (case read_csv lib buffer of
             None \<Rightarrow> scores
           | Some form_df \<Rightarrow>
               (let scores = (case form_df ''Runs'' of
                                Some runs \<Rightarrow> scores_add scores player (mean runs / 10)
                              | None \<Rightarrow> scores)
                in (case form_df ''Strike Rate'' of
                      Some sr \<Rightarrow> scores_add scores player (mean sr / 100)
                    | None \<Rightarrow> scores))))"

definition bowling_form ::
  "library \<Rightarrow> string \<Rightarrow> (string \<times> rat) list \<Rightarrow> string \<Rightarrow> (string \<times> rat) list" where
  "bowling_form lib player scores txt =
     (case pd_StringIO txt of
        Inl e \<Rightarrow> scores
      | Inr buffer \<Rightarrow>
          (case read_csv lib buffer of
             None \<Rightarrow> scores
           | Some form_df \<Rightarrow>
               (let scores = (case form_df ''Wickets'' of
                                Some wickets \<Rightarrow> scores_add scores player (mean wickets * 5)
                              | None \<Rightarrow> scores)
                in (case form_df ''Economy'' of
                      Some economy \<Rightarrow> scores_add scores player (10 - min (mean economy) 10)
                    | None \<Rightarrow> scores))))"

text \<open>The loop over the entries of \<open>recent_form\<close>, for the table with the given label.\<close>

definition form_entry ::
  "string \<Rightarrow> ((string \<times> rat) list \<Rightarrow> string \<Rightarrow> (string \<times> rat) list) \<Rightarrow>
   (string \<times> rat) list \<Rightarrow> string list \<Rightarrow> (string \<times> rat) list" where
  "form_entry label body scores form_data =
     (if length form_data \<ge> 2 \<and> form_data ! 0 = label then body scores (form_data ! 1)
      else scores)"

definition form_player ::
  "library \<Rightarrow> predictor \<Rightarrow> (string \<times> rat) list \<Rightarrow> string \<Rightarrow> (string \<times> rat) list" where
  "form_player lib self scores player =
     (let scores = scores_init scores player;
          scores =
            (case batter_data self player of
               None \<Rightarrow> scores
             | Some stats \<Rightarrow>
                 (case recent_form stats of
                    None \<Rightarrow> scores
                  | Some forms \<Rightarrow>
                      foldl (form_entry ''Batting Match-wise'' (batting_form lib player)) scores forms))
      in
        (case bowler_data self player of
           None \<Rightarrow> scores
         | Some stats \<Rightarrow>
             (case recent_form stats of
                None \<Rightarrow> scores
              | Some forms \<Rightarrow>
                  foldl (form_entry ''Bowling Match-wise'' (bowling_form lib player)) scores forms)))"

definition analyze_recent_form :: "library \<Rightarrow> predictor \<Rightarrow> string list \<Rightarrow> predictor" where
  "analyze_recent_form lib self players =
     self \<lparr> player_scores := foldl (form_player lib self) (player_scores self) players \<rparr>"


text \<open>
  A player lacks history in a cache when the cache has no entry for the name, or an entry
  without head-to-head records, venue tables and recent-form tables.
\<close>

fun lacks :: "player_stats option \<Rightarrow> bool" where
  "lacks None = True"
| "lacks (Some stats) = (head_to_head stats = None \<and> venue stats = None \<and> recent_form stats = None)"

definition lacks_history :: "predictor \<Rightarrow> string \<Rightarrow> bool" where
  "lacks_history self p = (lacks (batter_data self p) \<and> lacks (bowler_data self p))"


text \<open>Example caches: one encounter of bowler B with batter A, stored as a record or in a list.\<close>

definition encounter :: "string \<Rightarrow> field option" where
  "encounter = map_of [(''Dismissals'', Num 2), (''Econ'', Num 6)]"

definition flagged :: "string \<Rightarrow> field option" where
  "flagged = map_of [(''Message'', Str ''No data available''), (''Dismissals'', Num 1)]"

definition innings :: "string \<Rightarrow> field option" where
  "innings = map_of [(''Strike Rate'', Num 150), (''Average'', Num 30), (''Boundary %'', Num 20),
                     (''Dismissals'', Num 1)]"

definition h2h_only :: "h2h_data \<Rightarrow> string \<Rightarrow> string \<Rightarrow> string \<Rightarrow> player_stats option" where
  "h2h_only d owner opponent =
     map_of [(owner, \<lparr> head_to_head = Some (map_of [(opponent, d)]), venue = None,
                       recent_form = None \<rparr>)]"

text \<open>Example cache: player A with one recent-form table under the given label.\<close>

definition form_only :: "string \<Rightarrow> string \<Rightarrow> player_stats option" where
  "form_only label =
     map_of [(''A'', \<lparr> head_to_head = None, venue = None,
                      recent_form = Some [[label, ''Runs  Strike Rate  40  150'']] \<rparr>)]"

text \<open>A reader that gives every table the columns Runs = [40] and Strike Rate = [150].\<close>

definition form_reader :: library where
  "form_reader = \<lparr> float_of_str = (\<lambda>_. None), venue_batting = (\<lambda>_ _. None),
                    venue_bowling = (\<lambda>_ _. None),
                    read_csv = (\<lambda>_. Some (map_of [(''Runs'', [40]), (''Strike Rate'', [150])])) \<rparr>"

section \<open>Invariants of the selection loop\<close>











section \<open>Order of consideration and aggregates\<close>




















lemma str_in_sublist: "str_in tok s \<longleftrightarrow> sublist tok s"
  by (induction s) (simp_all add: sublist_Cons_right)

lemmas four_eval = four_unknown_def init_predictor_def four_scores_def no_stats_def
  category_of_def dict_get_def keeper_names_def

lemma four_categorized:
  "categorize_players four_unknown four_scores =
     \<lparr> batsmen = [(''B'', 3)], bowlers = [(''D'', 1)], all_rounders = [(''C'', 2)],
       wicket_keepers = [(''MS Dhoni'', 4)] \<rparr>"
  by (simp add: categorize_players_def four_eval)

theorem prepass_skips_team_checks_counterexample:
  "fst (ensure_minimum_requirements four_unknown (categorize_players four_unknown four_scores) 0 0)
     = [(''MS Dhoni'', 4), (''B'', 3), (''C'', 2), (''D'', 1)] \<and>
   rejected four_unknown
     (select_loop four_unknown [(''MS Dhoni'', 4), (''B'', 3), (''C'', 2)] sel_init) ''D''"
  unfolding four_categorized
  by (simp add: ensure_minimum_requirements_def four_unknown_def init_predictor_def
        dict_get_def max_credits_def max_foreign_def sel_init_def rejected_def accept_def
        Let_def credits_of_def foreign_of_def team_of_def simplify_role_def MAX_TEAM_PLAYERS_def)


lemma reserve_one_find:
  "reserve_one self cat (sel, tc, fc) =
     (case find (\<lambda>ps. fst ps \<notin> fst ` set sel \<and> tc + credits_of self (fst ps) \<le> 100 \<and>
                      (foreign_of self (fst ps) \<longrightarrow> fc < 4)) cat of
        None \<Rightarrow> (sel, tc, fc)
      | Some ps \<Rightarrow> (sel @ [ps], tc + credits_of self (fst ps),
                    if foreign_of self (fst ps) then fc + 1 else fc))"
proof (induction cat)
  case Nil
  then show ?case by simp
next
  case (Cons ps rest)
  have m: "filter (\<lambda>p. fst p = fst ps) sel \<noteq> [] \<longleftrightarrow> fst ps \<in> fst ` set sel"
    by (induction sel) auto
  have step: "reserve_one self (ps # rest) (sel, tc, fc) =
      (if fst ps \<in> fst ` set sel then reserve_one self rest (sel, tc, fc)
       else if tc + credits_of self (fst ps) \<le> 100 \<and> (foreign_of self (fst ps) \<longrightarrow> fc < 4)
            then (sel @ [ps], tc + credits_of self (fst ps),
                  if foreign_of self (fst ps) then fc + 1 else fc)
            else reserve_one self rest (sel, tc, fc))"
    by (auto simp: m Let_def credits_of_def foreign_of_def max_credits_def max_foreign_def)
  show ?case
    unfolding step using Cons.IH by auto
qed

lemma reserve_one_inv:
  assumes "prepass_inv self tc0 fc0 acc"
  shows "prepass_inv self tc0 fc0 (reserve_one self cat acc)"
proof -
  obtain sel tc fc where acc: "acc = (sel, tc, fc)" by (cases acc) auto
  let ?P = "\<lambda>ps. fst ps \<notin> fst ` set sel \<and> tc + credits_of self (fst ps) \<le> 100 \<and>
                      (foreign_of self (fst ps) \<longrightarrow> fc < 4)"
  show ?thesis
  proof (cases "find ?P cat")
    case None
    then show ?thesis using assms by (simp add: acc reserve_one_find)
  next
    case (Some ps)
    then have "?P ps" by (auto simp: find_Some_iff)
    then show ?thesis
      using assms Some by (auto simp: acc reserve_one_find prepass_inv_def)
  qed
qed

lemma reserve_one_length:
  "length (fst (reserve_one self cat acc)) \<le> Suc (length (fst acc))"
proof -
  obtain sel tc fc where acc: "acc = (sel, tc, fc)" by (cases acc) auto
  show ?thesis
    by (simp add: acc reserve_one_find split: option.split)
qed

lemma ensure_minimum_inv:
  "prepass_inv self tc fc (ensure_minimum_requirements self cats tc fc)"
proof -
  have "prepass_inv self tc fc ([], tc, fc)" by (simp add: prepass_inv_def)
  then show ?thesis
    unfolding ensure_minimum_requirements_def
    by (simp add: reserve_one_inv)
qed

lemma ensure_minimum_length:
  "length (fst (ensure_minimum_requirements self cats tc fc)) \<le> 4"
proof -
  let ?a1 = "reserve_one self (wicket_keepers cats) ([], tc, fc)"
  let ?a2 = "reserve_one self (batsmen cats) ?a1"
  let ?a3 = "reserve_one self (all_rounders cats) ?a2"
  let ?a4 = "reserve_one self (bowlers cats) ?a3"
  have "length (fst ?a1) \<le> 1"
    using reserve_one_length[of self "wicket_keepers cats" "([], tc, fc)"] by simp
  moreover have "length (fst ?a2) \<le> Suc (length (fst ?a1))" by (rule reserve_one_length)
  moreover have "length (fst ?a3) \<le> Suc (length (fst ?a2))" by (rule reserve_one_length)
  moreover have "length (fst ?a4) \<le> Suc (length (fst ?a3))" by (rule reserve_one_length)
  ultimately have "length (fst ?a4) \<le> 4" by linarith
  then show ?thesis by (simp add: ensure_minimum_requirements_def)
qed

text \<open>
  C9 (amended). The pre-pass applies to each candidate only the 100-credit budget check and
  the foreign cap of 4, after skipping a player it has already reserved: per category it
  reserves the first candidate that is not yet reserved and passes these two checks, and
  no origin-team or role cap is consulted. Its result holds each name at most once, has at
  most four players, adds exactly their credits and foreign flags to the totals it was
  given, and keeps the budget and the foreign cap when they held on entry.
\<close>

theorem prepass_budget_and_foreign_only:
  "reserve_one self cat (sel, tc, fc) =
     (case find (\<lambda>ps. fst ps \<notin> fst ` set sel \<and> tc + credits_of self (fst ps) \<le> 100 \<and>
                      (foreign_of self (fst ps) \<longrightarrow> fc < 4)) cat of
        None \<Rightarrow> (sel, tc, fc)
      | Some ps \<Rightarrow> (sel @ [ps], tc + credits_of self (fst ps),
                    if foreign_of self (fst ps) then fc + 1 else fc)) \<and>
   distinct (map fst (fst (ensure_minimum_requirements self cats tc fc))) \<and>
   length (fst (ensure_minimum_requirements self cats tc fc)) \<le> 4 \<and>
   fst (snd (ensure_minimum_requirements self cats tc fc)) =
     tc + sum_list (map (\<lambda>ps. credits_of self (fst ps))
                     (fst (ensure_minimum_requirements self cats tc fc))) \<and>
   snd (snd (ensure_minimum_requirements self cats tc fc)) =
     fc + length (filter (\<lambda>ps. foreign_of self (fst ps))
                     (fst (ensure_minimum_requirements self cats tc fc))) \<and>
   (tc \<le> 100 \<longrightarrow> fst (snd (ensure_minimum_requirements self cats tc fc)) \<le> 100) \<and>
   (fc \<le> 4 \<longrightarrow> snd (snd (ensure_minimum_requirements self cats tc fc)) \<le> 4)"
  using reserve_one_find[of self cat sel tc fc] ensure_minimum_inv[of self tc fc cats]
    ensure_minimum_length[of self cats tc fc]
  unfolding prepass_inv_def by blast

theorem prepass_budget_and_foreign_only_witness:
  "(0::rat) \<le> 100 \<and> (0::nat) \<le> 4 \<and>
   reserve_one four_unknown [(''D'', 1)] ([(''D'', 1)], 0, 0) = ([(''D'', 1)], 0, 0) \<and>
   reserve_one four_unknown [(''D'', 1)] ([(''C'', 2)], 7, 0) = ([(''C'', 2), (''D'', 1)], 14, 0) \<and>
   fst (snd (ensure_minimum_requirements four_unknown
               (categorize_players four_unknown four_scores) 0 0)) \<le> 100 \<and>
   snd (snd (ensure_minimum_requirements four_unknown
               (categorize_players four_unknown four_scores) 0 0)) \<le> 4"
proof -
  have c: "\<And>n. credits_of four_unknown n = 7" "\<And>n. foreign_of four_unknown n = False"
    by (simp_all add: credits_of_def foreign_of_def four_unknown_def init_predictor_def dict_get_def)
  have a: "reserve_one four_unknown [(''D'', 1)] ([(''D'', 1)], 0, 0) = ([(''D'', 1)], 0, 0)"
    using prepass_budget_and_foreign_only[of four_unknown "[(''D'', 1)]" "[(''D'', 1)]" 0 0]
    by (simp add: c)
  have b: "reserve_one four_unknown [(''D'', 1)] ([(''C'', 2)], 7, 0) = ([(''C'', 2), (''D'', 1)], 14, 0)"
    using prepass_budget_and_foreign_only[of four_unknown "[(''D'', 1)]" "[(''C'', 2)]" 7 0]
    by (simp add: c)
  have d: "fst (snd (ensure_minimum_requirements four_unknown
               (categorize_players four_unknown four_scores) 0 0)) \<le> 100"
          "snd (snd (ensure_minimum_requirements four_unknown
               (categorize_players four_unknown four_scores) 0 0)) \<le> 4"
    using prepass_budget_and_foreign_only[of four_unknown "[]" "[]" 0 0
            "categorize_players four_unknown four_scores"]
    by simp_all
  show ?thesis using a b d by simp
qed


lemmas role_eval = with_role_def init_predictor_def simplify_role_def category_of_def
  dict_get_def keeper_names_def

text \<open>
  C2 (counterexample). The match is not case-insensitive: \<open>wk-batter\<close> and \<open>BOWLER\<close> are not
  classified as \<open>WK-Batter\<close> and \<open>Bowler\<close> are, by either classifier; and the selector's
  classifier does not recognise \<open>All Rounder\<close> written with a space.
\<close>

theorem role_match_case_counterexample:
  "simplify_role (with_role ''WK-Batter'') ''x'' = WK \<and>
   simplify_role (with_role ''wk-batter'') ''x'' = BAT \<and>
   simplify_role (with_role ''Bowler'') ''x'' = BOWL \<and>
   simplify_role (with_role ''BOWLER'') ''x'' = BAT \<and>
   category_of (with_role ''WK-Batter'') ''x'' = WK \<and>
   category_of (with_role ''wk-batter'') ''x'' = ALL_ROUNDER \<and>
   category_of (with_role ''Bowler'') ''x'' = BOWL \<and>
   category_of (with_role ''BOWLER'') ''x'' = ALL_ROUNDER \<and>
   category_of (with_role ''All Rounder'') ''x'' = ALL_ROUNDER \<and>
   simplify_role (with_role ''All Rounder'') ''x'' = BAT"
  by (simp add: role_eval)

text \<open>
  C2 (amended). Role classification is a case-sensitive substring match against the tokens
  as they are spelled, tested in the order \<open>WK\<close>, then \<open>Bowler\<close>, then the all-rounder
  spellings, then \<open>Batter\<close>/\<open>Batsman\<close>. Both classifiers recognise \<open>All-Rounder\<close> and
  \<open>Allrounder\<close>; \<open>categorize_players\<close> also recognises \<open>All-rounder\<close> and \<open>All Rounder\<close>.
  Here \<open>sublist tok role\<close> says that \<open>tok\<close> occurs in \<open>role\<close> exactly as written.
\<close>

theorem role_match_case_sensitive_priority:
  assumes "role = dict_get (player_roles self) player ''Unknown''"
  shows
   "(sublist ''WK'' role \<longrightarrow>
       simplify_role self player = WK \<and> category_of self player = WK) \<and>
    (\<not> sublist ''WK'' role \<and> sublist ''Bowler'' role \<longrightarrow>
       simplify_role self player = BOWL \<and> category_of self player = BOWL) \<and>
    (\<not> sublist ''WK'' role \<and> \<not> sublist ''Bowler'' role \<and>
     (sublist ''All-Rounder'' role \<or> sublist ''Allrounder'' role) \<longrightarrow>
       simplify_role self player = ALL_ROUNDER \<and> category_of self player = ALL_ROUNDER) \<and>
    (\<not> sublist ''WK'' role \<and> \<not> sublist ''Bowler'' role \<and>
     (sublist ''All-rounder'' role \<or> sublist ''All Rounder'' role) \<longrightarrow>
       category_of self player = ALL_ROUNDER) \<and>
    (\<not> sublist ''WK'' role \<and> \<not> sublist ''Bowler'' role \<and>
     \<not> sublist ''All-Rounder'' role \<and> \<not> sublist ''Allrounder'' role \<and>
     \<not> sublist ''All-rounder'' role \<and> \<not> sublist ''All Rounder'' role \<and>
     (sublist ''Batter'' role \<or> sublist ''Batsman'' role) \<longrightarrow>
       simplify_role self player = BAT \<and> category_of self player = BAT)"
  unfolding simplify_role_def category_of_def Let_def assms[symmetric] str_in_sublist
  by simp

theorem role_match_case_sensitive_priority_witness:
  "simplify_role (with_role ''WK-Batter'') ''x'' = WK \<and>
   category_of (with_role ''WK-Batter'') ''x'' = WK \<and>
   simplify_role (with_role ''Bowler'') ''x'' = BOWL \<and>
   category_of (with_role ''Bowler'') ''x'' = BOWL \<and>
   simplify_role (with_role ''Batting Allrounder'') ''x'' = ALL_ROUNDER \<and>
   category_of (with_role ''Batting Allrounder'') ''x'' = ALL_ROUNDER \<and>
   category_of (with_role ''All Rounder'') ''x'' = ALL_ROUNDER \<and>
   simplify_role (with_role ''Batter'') ''x'' = BAT \<and>
   category_of (with_role ''Batter'') ''x'' = BAT"
proof -
  have r: "\<And>t. t = dict_get (player_roles (with_role t)) ''x'' ''Unknown''"
    by (simp add: with_role_def init_predictor_def dict_get_def)
  have s: "\<And>tok t. sublist tok t = str_in tok t" by (simp add: str_in_sublist)
  note th = role_match_case_sensitive_priority[OF r]
  have "simplify_role (with_role ''WK-Batter'') ''x'' = WK \<and>
        category_of (with_role ''WK-Batter'') ''x'' = WK"
    using th[of "''WK-Batter''"] by (simp add: s)
  moreover have "simplify_role (with_role ''Bowler'') ''x'' = BOWL \<and>
        category_of (with_role ''Bowler'') ''x'' = BOWL"
    using th[of "''Bowler''"] by (simp add: s)
  moreover have "simplify_role (with_role ''Batting Allrounder'') ''x'' = ALL_ROUNDER \<and>
        category_of (with_role ''Batting Allrounder'') ''x'' = ALL_ROUNDER"
    using th[of "''Batting Allrounder''"] by (simp add: s)
  moreover have "category_of (with_role ''All Rounder'') ''x'' = ALL_ROUNDER"
    using th[of "''All Rounder''"] by (simp add: s)
  moreover have "simplify_role (with_role ''Batter'') ''x'' = BAT \<and>
        category_of (with_role ''Batter'') ''x'' = BAT"
    using th[of "''Batter''"] by (simp add: s)
  ultimately show ?thesis by blast
qed

text \<open>
  C3 (counterexample). A player with no role text and no history at all is filed under
  all-rounders by \<open>categorize_players\<close>, not under batters; and the classification that
  the selector uses gives BAT to a player who has bowling history only, and to a listed
  wicket-keeper.
\<close>

theorem fallback_counterexample:
  "player_roles four_unknown ''E'' = None \<and>
   batter_data four_unknown ''E'' = None \<and> bowler_data four_unknown ''E'' = None \<and>
   category_of four_unknown ''E'' = ALL_ROUNDER \<and>
   batter_data four_unknown ''D'' = None \<and> bowler_data four_unknown ''D'' \<noteq> None \<and>
   simplify_role four_unknown ''D'' = BAT \<and>
   simplify_role four_unknown ''MS Dhoni'' = BAT"
  by (simp add: four_unknown_def role_eval)

text \<open>
  C3 (amended). For a player whose role text contains none of the tokens, the role
  categoriser \<open>categorize_players\<close> infers the category from the caches: batting history
  only gives BAT, or WK when the name is on the hard-coded keeper list; bowling history
  only gives BOWL; both give ALL_ROUNDER. The classification that the selector uses,
  \<open>_simplify_role\<close>, has no such inference and gives BAT.
\<close>

theorem unmatched_role_fallback:
  assumes "role = dict_get (player_roles self) player ''Unknown''"
    and "\<not> sublist ''WK'' role \<and> \<not> sublist ''Bowler'' role \<and>
         \<not> sublist ''All-Rounder'' role \<and> \<not> sublist ''Allrounder'' role \<and>
         \<not> sublist ''All-rounder'' role \<and> \<not> sublist ''All Rounder'' role \<and>
         \<not> sublist ''Batter'' role \<and> \<not> sublist ''Batsman'' role"
  shows
   "simplify_role self player = BAT \<and>
    (batter_data self player \<noteq> None \<and> bowler_data self player = None \<longrightarrow>
       category_of self player = (if player \<in> set keeper_names then WK else BAT)) \<and>
    (bowler_data self player \<noteq> None \<and> batter_data self player = None \<longrightarrow>
       category_of self player = BOWL) \<and>
    (batter_data self player \<noteq> None \<and> bowler_data self player \<noteq> None \<longrightarrow>
       category_of self player = ALL_ROUNDER)"
  using assms(2)
  unfolding simplify_role_def category_of_def Let_def assms(1)[symmetric] str_in_sublist
  by auto

theorem unmatched_role_fallback_witness:
  "simplify_role four_unknown ''B'' = BAT \<and>
   category_of four_unknown ''MS Dhoni'' = WK \<and>
   category_of four_unknown ''B'' = BAT \<and>
   category_of four_unknown ''D'' = BOWL \<and>
   category_of four_unknown ''C'' = ALL_ROUNDER"
proof -
  have r: "\<And>p. ''Unknown'' = dict_get (player_roles four_unknown) p ''Unknown''"
    by (simp add: four_unknown_def init_predictor_def dict_get_def)
  have n: "\<not> sublist ''WK'' ''Unknown'' \<and> \<not> sublist ''Bowler'' ''Unknown'' \<and>
         \<not> sublist ''All-Rounder'' ''Unknown'' \<and> \<not> sublist ''Allrounder'' ''Unknown'' \<and>
         \<not> sublist ''All-rounder'' ''Unknown'' \<and> \<not> sublist ''All Rounder'' ''Unknown'' \<and>
         \<not> sublist ''Batter'' ''Unknown'' \<and> \<not> sublist ''Batsman'' ''Unknown''"
    unfolding str_in_sublist[symmetric] by simp
  note th = unmatched_role_fallback[OF r n]
  have d: "batter_data four_unknown ''MS Dhoni'' \<noteq> None" "bowler_data four_unknown ''MS Dhoni'' = None"
     "batter_data four_unknown ''B'' \<noteq> None" "bowler_data four_unknown ''B'' = None"
     "batter_data four_unknown ''D'' = None" "bowler_data four_unknown ''D'' \<noteq> None"
     "batter_data four_unknown ''C'' \<noteq> None" "bowler_data four_unknown ''C'' \<noteq> None"
    by (simp_all add: four_unknown_def init_predictor_def)
  have k: "''MS Dhoni'' \<in> set keeper_names" "''B'' \<notin> set keeper_names"
    by (simp_all add: keeper_names_def)
  show ?thesis
    using th[of "''B''"] th[of "''MS Dhoni''"] th[of "''D''"] th[of "''C''"] d k
    by simp
qed

section \<open>Scores of a player under the passes\<close>












text \<open>The recent-form tables are never read: building the text buffer raises.\<close>

lemma batting_form_unchanged: "batting_form lib player scores txt = scores"
  by (simp add: batting_form_def pd_StringIO_def)

lemma bowling_form_unchanged: "bowling_form lib player scores txt = scores"
  by (simp add: bowling_form_def pd_StringIO_def)

lemma foldl_form_entry_batting:
  "foldl (form_entry label (batting_form lib player)) scores forms = scores"
  by (induction forms arbitrary: scores) (simp_all add: form_entry_def batting_form_unchanged)

lemma foldl_form_entry_bowling:
  "foldl (form_entry label (bowling_form lib player)) scores forms = scores"
  by (induction forms arbitrary: scores) (simp_all add: form_entry_def bowling_form_unchanged)

lemma form_player_init: "form_player lib self scores player = scores_init scores player"
  by (simp add: form_player_def Let_def foldl_form_entry_batting foldl_form_entry_bowling
           split: option.splits)

lemma recent_form_only_inserts:
  "player_scores (analyze_recent_form lib self players) = foldl scores_init (player_scores self) players"
proof -
  have "form_player lib self = scores_init" by (intro ext) (rule form_player_init)
  then show ?thesis by (simp add: analyze_recent_form_def)
qed










lemma lacks_history_scores [simp]:
  "lacks_history (self \<lparr> player_scores := sc \<rparr>) p = lacks_history self p"
  by (simp add: lacks_history_def)

lemma lacks_history_h2h [simp]:
  "lacks_history (analyze_head_to_head lib self t1 t2) p = lacks_history self p"
  by (simp add: analyze_head_to_head_def)

lemma lacks_history_venue [simp]:
  "lacks_history (analyze_venue_performance lib self v ps) p = lacks_history self p"
  by (simp add: analyze_venue_performance_def)




lemmas h2h_eval = analyze_head_to_head_def analyze_batter_def analyze_bowler_def
  batting_pair_def bowling_pair_def batting_score_def bowling_score_def h2h_of_def
  h2h_only_def init_predictor_def scores_init_def scores_add_def dict_get_def Let_def
  encounter_def flagged_def innings_def

text \<open>
  C4 (evaluation at the failing input). Bowler B has one stored encounter with batter A:
  2 dismissals at economy 6, worth \<open>2*5 + (10 - 6) = 14\<close>. Stored as a record it adds 14 to
  B's score; stored as a one-element list it adds nothing, because the bowling direction
  has no step that takes the first record of a list. The batting direction has it: the
  same kind of list adds 6 to A's score. A record flagged with \<open>Message\<close> is skipped in the
  batting direction and is scored in the bowling direction.
\<close>

theorem bowling_list_encounter_ignored:
  "player_scores (analyze_head_to_head lib
      (init_predictor Map.empty (h2h_only (HList [HDict encounter]) ''B'' ''A'') []) [''A''] [''B''])
     = [(''A'', 0), (''B'', 0)] \<and>
   player_scores (analyze_head_to_head lib
      (init_predictor Map.empty (h2h_only (HDict encounter) ''B'' ''A'') []) [''A''] [''B''])
     = [(''A'', 0), (''B'', 14)] \<and>
   player_scores (analyze_head_to_head lib
      (init_predictor (h2h_only (HList [HDict innings]) ''A'' ''B'') Map.empty []) [''A''] [''B''])
     = [(''A'', 6), (''B'', 0)] \<and>
   player_scores (analyze_head_to_head lib
      (init_predictor (h2h_only (HDict flagged) ''A'' ''B'') Map.empty []) [''A''] [''B''])
     = [(''A'', 0), (''B'', 0)] \<and>
   player_scores (analyze_head_to_head lib
      (init_predictor Map.empty (h2h_only (HDict flagged) ''B'' ''A'') []) [''A''] [''B''])
     = [(''A'', 0), (''B'', 5)]"
  by (simp add: h2h_eval)

text \<open>
  C5 (evaluation at the failing input). Player A has a recent-form table labelled
  \<open>Batting Match-wise\<close>; whatever the table reader makes of it (also a reader that finds the
  columns Runs = [40] and Strike Rate = [150], worth \<open>40/10 + 150/100\<close>), the pass adds
  nothing to A's score: building the text buffer raises before the table is read, and the
  exception is swallowed.
\<close>

theorem recent_form_table_ignored:
  "player_scores (analyze_recent_form lib
      (init_predictor (form_only ''Batting Match-wise'') Map.empty []) [''A'']) = [(''A'', 0)] \<and>
   player_scores (analyze_recent_form form_reader
      (init_predictor (form_only ''Batting Match-wise'') Map.empty []) [''A'']) = [(''A'', 0)] \<and>
   player_scores (analyze_recent_form lib
      (init_predictor Map.empty (form_only ''Bowling Match-wise'') []) [''A'']) = [(''A'', 0)]"
  by (simp add: recent_form_only_inserts init_predictor_def scores_init_def)

end
